theory Spec2Isabelle
  imports Complex_Main "HOL-Library.AList"
begin

section \<open>Python values used by the symptom engine\<close>

text \<open>
  The engine only ever applies \<^verbatim>\<open>abs\<close> and \<^verbatim>\<open>>=\<close> to its numbers, and both are
  exact on Python floats and ints. A number is therefore modelled as a real, extended with
  the two infinities and NaN, whose comparisons are all false (IEEE 754).
\<close>

datatype pyfloat = Fin real | PInf | NInf | NaN

fun float_abs :: "pyfloat \<Rightarrow> pyfloat" where
  "float_abs (Fin r) = Fin \<bar>r\<bar>"
| "float_abs PInf = PInf"
| "float_abs NInf = PInf"
| "float_abs NaN = NaN"

text \<open>\<open>float_ge a b\<close> is Python's \<^verbatim>\<open>a >= b\<close>.\<close>

fun float_ge :: "pyfloat \<Rightarrow> pyfloat \<Rightarrow> bool" where
  "float_ge NaN y = False"
| "float_ge x NaN = False"
| "float_ge PInf y = True"
| "float_ge x NInf = True"
| "float_ge (Fin a) (Fin b) = (b \<le> a)"
| "float_ge (Fin a) PInf = False"
| "float_ge NInf y = False"

text \<open>\<open>float_gt a b\<close> is Python's \<^verbatim>\<open>a > b\<close>.\<close>

fun float_gt :: "pyfloat \<Rightarrow> pyfloat \<Rightarrow> bool" where
  "float_gt NaN y = False"
| "float_gt x NaN = False"
| "float_gt NInf y = False"
| "float_gt x PInf = False"
| "float_gt (Fin a) (Fin b) = (b < a)"
| "float_gt PInf y = True"
| "float_gt (Fin a) NInf = True"

text \<open>\<open>float_le a b\<close> is Python's \<^verbatim>\<open>a <= b\<close>.\<close>

definition float_le :: "pyfloat \<Rightarrow> pyfloat \<Rightarrow> bool" where
  "float_le a b = float_ge b a"

datatype py_error = KeyError string

section \<open>symptom\_engine.py\<close>

text \<open>\<^verbatim>\<open>Severity = str  # 'normal'|'mild'|'moderate'|'severe'\<close>\<close>

datatype severity = Normal | Mild | Moderate | Severe

fun severity_str :: "severity \<Rightarrow> string" where
  "severity_str Normal = ''normal''"
| "severity_str Mild = ''mild''"
| "severity_str Moderate = ''moderate''"
| "severity_str Severe = ''severe''"

record Thresholds =
  severe :: pyfloat
  moderate :: pyfloat
  mild :: pyfloat

definition classify_severity :: "pyfloat \<Rightarrow> Thresholds \<Rightarrow> severity" where
  "classify_severity zv thr =
     (let a = float_abs zv in
      if float_ge a (severe thr) then Severe
      else if float_ge a (moderate thr) then Moderate
      else if float_ge a (mild thr) then Mild
      else Normal)"

text \<open>\<^verbatim>\<open>WEIGHT = {'severe': 3, 'moderate': 2, 'mild': 1, 'normal': 0}\<close>\<close>

fun WEIGHT :: "severity \<Rightarrow> int" where
  "WEIGHT Severe = 3"
| "WEIGHT Moderate = 2"
| "WEIGHT Mild = 1"
| "WEIGHT Normal = 0"

text \<open>The ordinal reading of a severity: normal < mild < moderate < severe.\<close>

fun severity_rank :: "severity \<Rightarrow> nat" where
  "severity_rank Normal = 0"
| "severity_rank Mild = 1"
| "severity_rank Moderate = 2"
| "severity_rank Severe = 3"

definition severity_le :: "severity \<Rightarrow> severity \<Rightarrow> bool" where
  "severity_le s t = (severity_rank s \<le> severity_rank t)"

subsection \<open>Dictionaries\<close>

text \<open>
  A dictionary that is only read is a map; one that is iterated or written is an
  association list in insertion order, written with \<open>AList.update\<close> (an existing key keeps
  its position, a new key goes last, as in Python). The keys of a Python dictionary are
  distinct: theorems about a dictionary that comes from outside assume \<open>distinct (map fst d)\<close>.
  \<open>dict_get d k dflt\<close> is \<^verbatim>\<open>d.get(k, dflt)\<close> and \<open>dict_item d k\<close> is \<^verbatim>\<open>d[k]\<close>.
\<close>

definition dict_get :: "('k \<rightharpoonup> 'v) \<Rightarrow> 'k \<Rightarrow> 'v \<Rightarrow> 'v" where
  "dict_get d k dflt = (case d k of Some v \<Rightarrow> v | None \<Rightarrow> dflt)"

definition dict_item :: "(string \<rightharpoonup> 'v) \<Rightarrow> string \<Rightarrow> py_error + 'v" where
  "dict_item d k = (case d k of Some v \<Rightarrow> Inr v | None \<Rightarrow> Inl (KeyError k))"

text \<open>
  A run row maps a key to a float or to Python's \<^verbatim>\<open>None\<close> (\<open>Some None\<close>: the key is there and
  holds \<^verbatim>\<open>None\<close>). A cluster definition is a dictionary with the optional keys
  \<^verbatim>\<open>'metrics'\<close> and \<^verbatim>\<open>'indicators'\<close>; the cluster map holds the clusters, in order, under
  \<^verbatim>\<open>'clusters'\<close>.
\<close>

type_synonym run_row = "string \<rightharpoonup> pyfloat option"
type_synonym thr_map = "string \<rightharpoonup> Thresholds"
type_synonym cluster_def = "string \<rightharpoonup> string list"
type_synonym cluster_map = "string \<rightharpoonup> (string \<times> cluster_def) list"

text \<open>
  The record \<^verbatim>\<open>{'metric': m, 'z': z, 'severity': sev, 'cluster': cname}\<close>; the field
  \<open>zscore\<close> is the entry \<^verbatim>\<open>'z'\<close>.
\<close>

record symptom =
  metric :: string
  zscore :: pyfloat
  severity :: severity
  cluster :: string

type_synonym scores = "(string \<times> int) list"
type_synonym engine_state = "scores \<times> symptom list"

subsection \<open>cluster\_scores\<close>

text \<open>\<^verbatim>\<open>run_row.get(f'z_{m}', run_row.get(f'{m}_z_local'))\<close> and \<^verbatim>\<open>run_row.get(ind)\<close>\<close>

definition metric_value :: "run_row \<Rightarrow> string \<Rightarrow> pyfloat option" where
  "metric_value run_row m =
     dict_get run_row (''z_'' @ m) (dict_get run_row (m @ ''_z_local'') None)"

definition indicator_value :: "run_row \<Rightarrow> string \<Rightarrow> pyfloat option" where
  "indicator_value run_row ind = dict_get run_row ind None"

text \<open>
  The four statements both inner loops run for a value that is not \<^verbatim>\<open>None\<close> (lines 59-62
  and 68-71). \<^verbatim>\<open>thr_map['global']\<close> is an argument of \<^verbatim>\<open>get\<close>, so it is looked up first and
  whatever the key.
\<close>

definition score_symptom ::
  "thr_map \<Rightarrow> string \<Rightarrow> string \<Rightarrow> pyfloat \<Rightarrow> engine_state \<Rightarrow> py_error + engine_state" where
  "score_symptom thr_map cname key zv st =
     (case dict_item thr_map ''global'' of
        Inl e \<Rightarrow> Inl e
      | Inr g \<Rightarrow>
          let thr = dict_get thr_map key g;
              sev = classify_severity zv thr
          in (case dict_item (map_of (fst st)) cname of
                Inl e \<Rightarrow> Inl e
              | Inr s \<Rightarrow>
                  Inr (AList.update cname (s + WEIGHT sev) (fst st),
                       snd st @ [\<lparr>metric = key, zscore = zv, severity = sev, cluster = cname\<rparr>])))"

fun metrics_loop ::
  "run_row \<Rightarrow> thr_map \<Rightarrow> string \<Rightarrow> string list \<Rightarrow> engine_state \<Rightarrow> py_error + engine_state" where
  "metrics_loop run_row thr_map cname [] st = Inr st"
| "metrics_loop run_row thr_map cname (m # ms) st =
     (case metric_value run_row m of
        None \<Rightarrow> metrics_loop run_row thr_map cname ms st
      | Some zv \<Rightarrow>
          (case score_symptom thr_map cname m zv st of
             Inl e \<Rightarrow> Inl e
           | Inr st' \<Rightarrow> metrics_loop run_row thr_map cname ms st'))"

fun indicators_loop ::
  "run_row \<Rightarrow> thr_map \<Rightarrow> string \<Rightarrow> string list \<Rightarrow> engine_state \<Rightarrow> py_error + engine_state" where
  "indicators_loop run_row thr_map cname [] st = Inr st"
| "indicators_loop run_row thr_map cname (ind # inds) st =
     (case indicator_value run_row ind of
        None \<Rightarrow> indicators_loop run_row thr_map cname inds st
      | Some zv \<Rightarrow>
          (case score_symptom thr_map cname ind zv st of
             Inl e \<Rightarrow> Inl e
           | Inr st' \<Rightarrow> indicators_loop run_row thr_map cname inds st'))"

fun clusters_loop ::
  "run_row \<Rightarrow> thr_map \<Rightarrow> (string \<times> cluster_def) list \<Rightarrow> engine_state \<Rightarrow> py_error + engine_state" where
  "clusters_loop run_row thr_map [] st = Inr st"
| "clusters_loop run_row thr_map ((cname, c) # cs) st =
     (case metrics_loop run_row thr_map cname (dict_get c ''metrics'' []) st of
        Inl e \<Rightarrow> Inl e
      | Inr st1 \<Rightarrow>
          (case indicators_loop run_row thr_map cname (dict_get c ''indicators'' []) st1 of
             Inl e \<Rightarrow> Inl e
           | Inr st2 \<Rightarrow> clusters_loop run_row thr_map cs st2))"

text \<open>Lines 48-49: every cluster starts at 0.\<close>

fun init_scores :: "(string \<times> cluster_def) list \<Rightarrow> scores \<Rightarrow> scores" where
  "init_scores [] scores = scores"
| "init_scores ((cname, c) # cs) scores = init_scores cs (AList.update cname 0 scores)"

text \<open>Lines 74-82: the label of a score, and the loop that labels every cluster.\<close>

definition label_of :: "int \<Rightarrow> string" where
  "label_of s =
     (if s \<ge> 6 then ''strong''
      else if s \<ge> 3 then ''moderate''
      else if s \<ge> 1 then ''weak''
      else ''none'')"

fun labels_loop :: "scores \<Rightarrow> (string \<times> string) list \<Rightarrow> (string \<times> string) list" where
  "labels_loop [] labels = labels"
| "labels_loop ((cname, s) # rest) labels =
     labels_loop rest (AList.update cname (label_of s) labels)"

definition cluster_scores ::
  "run_row \<Rightarrow> cluster_map \<Rightarrow> thr_map \<Rightarrow>
     py_error + (scores \<times> (string \<times> string) list \<times> symptom list)" where
  "cluster_scores run_row cluster_map thr_map =
     (case dict_item cluster_map ''clusters'' of
        Inl e \<Rightarrow> Inl e
      | Inr clusters \<Rightarrow>
          (case clusters_loop run_row thr_map clusters (init_scores clusters [], []) of
             Inl e \<Rightarrow> Inl e
           | Inr (scores, records) \<Rightarrow> Inr (scores, labels_loop scores [], records)))"

section \<open>diagnose\_runs.py: the loop over the runs\<close>

text \<open>
  Reading the tables and the configuration is left to pandas and yaml; the model starts at
  the loop over the rows of the merged table (lines 49-58). A row of an output table is a
  dictionary from column name to cell.
\<close>

datatype cell = CNum "pyfloat option" | CInt int | CStr string

type_synonym out_row = "(string \<times> cell) list"

definition symptom_row :: "pyfloat option \<Rightarrow> symptom \<Rightarrow> out_row" where
  "symptom_row run r =
     [(''run'', CNum run), (''metric'', CStr (metric r)), (''z'', CNum (Some (zscore r))),
      (''severity'', CStr (severity_str (severity r))), (''clusters'', CStr (cluster r))]"

fun cause_loop :: "scores \<Rightarrow> (string \<times> string) list \<Rightarrow> out_row \<Rightarrow> py_error + out_row" where
  "cause_loop [] labels cause_row = Inr cause_row"
| "cause_loop ((cname, s) # rest) labels cause_row =
     (case dict_item (map_of labels) cname of
        Inl e \<Rightarrow> Inl e
      | Inr l \<Rightarrow>
          cause_loop rest labels
            (AList.update (''label_'' @ cname) (CStr l) (AList.update cname (CInt s) cause_row)))"

fun diagnose_rows ::
  "run_row list \<Rightarrow> cluster_map \<Rightarrow> thr_map \<Rightarrow> out_row list \<times> out_row list \<Rightarrow>
     py_error + (out_row list \<times> out_row list)" where
  "diagnose_rows [] cluster_map thr_map acc = Inr acc"
| "diagnose_rows (row # rows) cluster_map thr_map (symptom_rows, cause_rows) =
     (case cluster_scores row cluster_map thr_map of
        Inl e \<Rightarrow> Inl e
      | Inr (scores, labels, recs) \<Rightarrow>
          (case dict_item row ''run'' of
             Inl e \<Rightarrow> Inl e
           | Inr run \<Rightarrow>
               (case cause_loop scores labels [(''run'', CNum run)] of
                  Inl e \<Rightarrow> Inl e
                | Inr cause_row \<Rightarrow>
                    diagnose_rows rows cluster_map thr_map
                      (symptom_rows @ map (symptom_row run) recs, cause_rows @ [cause_row]))))"

section \<open>The engine as the specification words it\<close>

text \<open>
  The value of a metric: the candidate keys \<^verbatim>\<open>"z_" + m\<close> and \<^verbatim>\<open>m + "_z_local"\<close> in this
  order, the first one present in the row wins. The value of an indicator is the entry
  under its own name. A key that holds \<^verbatim>\<open>None\<close> resolves to nothing.
\<close>

definition spec_metric_value :: "run_row \<Rightarrow> string \<Rightarrow> pyfloat option" where
  "spec_metric_value run_row m =
     (case filter (\<lambda>k. run_row k \<noteq> None) [''z_'' @ m, m @ ''_z_local''] of
        [] \<Rightarrow> None
      | k # _ \<Rightarrow> (case run_row k of Some v \<Rightarrow> v | None \<Rightarrow> None))"

definition spec_indicator_value :: "run_row \<Rightarrow> string \<Rightarrow> pyfloat option" where
  "spec_indicator_value run_row i = (case run_row i of Some v \<Rightarrow> v | None \<Rightarrow> None)"

definition resolved_keys :: "run_row \<Rightarrow> cluster_def \<Rightarrow> (string \<times> pyfloat) list" where
  "resolved_keys run_row c =
     List.map_filter (\<lambda>m. map_option (Pair m) (spec_metric_value run_row m))
       (dict_get c ''metrics'' [])
     @ List.map_filter (\<lambda>i. map_option (Pair i) (spec_indicator_value run_row i))
       (dict_get c ''indicators'' [])"

definition symptom_of :: "thr_map \<Rightarrow> Thresholds \<Rightarrow> string \<Rightarrow> string \<times> pyfloat \<Rightarrow> symptom" where
  "symptom_of thr_map g cname kv =
     \<lparr>metric = fst kv, zscore = snd kv,
      severity = classify_severity (snd kv) (dict_get thr_map (fst kv) g), cluster = cname\<rparr>"

definition cluster_symptoms ::
  "run_row \<Rightarrow> thr_map \<Rightarrow> Thresholds \<Rightarrow> string \<Rightarrow> cluster_def \<Rightarrow> symptom list" where
  "cluster_symptoms run_row thr_map g cname c =
     map (symptom_of thr_map g cname) (resolved_keys run_row c)"

definition cluster_weight :: "run_row \<Rightarrow> thr_map \<Rightarrow> Thresholds \<Rightarrow> cluster_def \<Rightarrow> int" where
  "cluster_weight run_row thr_map g c =
     sum_list (map (\<lambda>kv. WEIGHT (classify_severity (snd kv) (dict_get thr_map (fst kv) g)))
       (resolved_keys run_row c))"

definition weights :: "symptom list \<Rightarrow> int" where
  "weights rs = sum_list (map (\<lambda>r. WEIGHT (severity r)) rs)"

text \<open>
  Threshold resolution as the specification words it: the entry of the key if there is one,
  else the entry \<^verbatim>\<open>"global"\<close>; nothing when neither is there.
\<close>

definition spec_resolve :: "string \<Rightarrow> thr_map \<Rightarrow> Thresholds option" where
  "spec_resolve key thr_map = (case thr_map key of Some t \<Rightarrow> Some t | None \<Rightarrow> thr_map ''global'')"

text \<open>The cluster map with the metric \<open>m\<close> struck from every cluster's list of metrics.\<close>

definition without_metric :: "string \<Rightarrow> cluster_map \<Rightarrow> cluster_map" where
  "without_metric m cluster_map =
     (case cluster_map ''clusters'' of
        None \<Rightarrow> cluster_map
      | Some cs \<Rightarrow>
          cluster_map(''clusters'' \<mapsto>
            map (\<lambda>(cname, c). (cname, c(''metrics'' \<mapsto> filter (\<lambda>x. x \<noteq> m) (dict_get c ''metrics'' [])))) cs))"

section \<open>Example inputs\<close>

text \<open>
  The example of the specification: cluster \<^verbatim>\<open>C\<close> with the metrics \<^verbatim>\<open>A\<close> and \<^verbatim>\<open>B\<close>, global
  bounds 1, 2, 3, and a run with \<^verbatim>\<open>z_A = 2.5\<close> and \<^verbatim>\<open>z_B = 3.5\<close>.
\<close>

definition ex_thr :: Thresholds where
  "ex_thr = \<lparr>severe = Fin 3, moderate = Fin 2, mild = Fin 1\<rparr>"

definition ex_row :: run_row where
  "ex_row = map_of [(''run'', Some (Fin 7)), (''z_A'', Some (Fin 2.5)), (''z_B'', Some (Fin 3.5))]"

definition ex_cm :: cluster_map where
  "ex_cm = map_of [(''clusters'', [(''C'', map_of [(''metrics'', [''A'', ''B''])])])]"

definition ex_tm :: thr_map where
  "ex_tm = map_of [(''global'', ex_thr)]"

text \<open>
  A second run: \<^verbatim>\<open>A\<close> is found under both candidate keys, \<^verbatim>\<open>B\<close> only under the second,
  \<^verbatim>\<open>M\<close> and \<^verbatim>\<open>ndf\<close> under none, \<^verbatim>\<open>D\<close> holds \<^verbatim>\<open>None\<close>, and the indicator \<^verbatim>\<open>chi2\<close> has
  bounds of its own.
\<close>

definition ex2_row :: run_row where
  "ex2_row = map_of [(''run'', Some (Fin 8)), (''z_A'', Some (Fin 0.5)), (''A_z_local'', Some (Fin 9)),
     (''B_z_local'', Some (Fin (-2.5))), (''chi2'', Some (Fin 4)), (''z_D'', None)]"

definition ex2_clusters :: "(string \<times> cluster_def) list" where
  "ex2_clusters =
     [(''C'', map_of [(''metrics'', [''A'', ''B'', ''M'']), (''indicators'', [''chi2'', ''ndf''])]),
      (''E'', map_of [(''metrics'', [''D''])])]"

definition ex2_cm :: cluster_map where
  "ex2_cm = map_of [(''clusters'', ex2_clusters)]"

definition ex2_tm :: thr_map where
  "ex2_tm = map_of [(''global'', ex_thr),
     (''chi2'', \<lparr>severe = Fin 10, moderate = Fin 5, mild = Fin 3\<rparr>)]"

text \<open>
  Threshold maps with an entry under a row key, and without \<^verbatim>\<open>"global"\<close>; a run with no
  measurement.
\<close>

definition ex5_tm :: thr_map where
  "ex5_tm = map_of [(''global'', ex_thr),
     (''z_A'', \<lparr>severe = Fin 30, moderate = Fin 20, mild = Fin 10\<rparr>)]"

definition ex10_tm :: thr_map where
  "ex10_tm = map_of [(''A'', ex_thr), (''B'', ex_thr)]"

definition ex_empty_row :: run_row where
  "ex_empty_row = map_of [(''run'', Some (Fin 9))]"

section \<open>Properties of the severity classifier\<close>

lemma float_ge_trans: "float_ge a b \<Longrightarrow> float_ge b c \<Longrightarrow> float_ge a c"
  by (cases a; cases b; cases c) simp_all

lemma float_gt_not_ge: "float_gt b (Fin 0) \<Longrightarrow> \<not> float_ge (Fin 0) b"
  by (cases b) simp_all

text \<open>
  C2: \<open>classify_severity\<close> takes the absolute value and tests the bounds in the order
  severe, moderate, mild, each with \<^verbatim>\<open>>=\<close>; the first bound reached names the severity
  and \<open>Normal\<close> is what remains. The second equation reads the same on finite numbers.
\<close>

theorem classify_severity_order:
  "classify_severity v thr =
     (if float_ge (float_abs v) (severe thr) then Severe
      else if float_ge (float_abs v) (moderate thr) then Moderate
      else if float_ge (float_abs v) (mild thr) then Mild
      else Normal)
   \<and> classify_severity (Fin x) \<lparr>severe = Fin s, moderate = Fin m, mild = Fin l\<rparr> =
     (if \<bar>x\<bar> \<ge> s then Severe
      else if \<bar>x\<bar> \<ge> m then Moderate
      else if \<bar>x\<bar> \<ge> l then Mild
      else Normal)"
  by (simp add: classify_severity_def)

text \<open>
  C6 as amended: the value 0 is \<open>Normal\<close> when all three bounds are positive, which the
  ordering severe \<ge> moderate \<ge> mild > 0 implies. A positive \<open>mild\<close> alone is not enough.
\<close>

theorem classify_zero_normal:
  assumes "float_gt (mild thr) (Fin 0)"
    and "float_gt (moderate thr) (Fin 0)"
    and "float_gt (severe thr) (Fin 0)"
  shows "classify_severity (Fin 0) thr = Normal"
  using assms by (simp add: classify_severity_def float_gt_not_ge)

theorem classify_zero_normal_witness:
  "float_gt (mild \<lparr>severe = Fin 3, moderate = Fin 2, mild = Fin 1\<rparr>) (Fin 0)
   \<and> classify_severity (Fin 0) \<lparr>severe = Fin 3, moderate = Fin 2, mild = Fin 1\<rparr> = Normal"
  using classify_zero_normal [of "\<lparr>severe = Fin 3, moderate = Fin 2, mild = Fin 1\<rparr>"]
  by simp

text \<open>
  With \<open>mild = 1\<close> but \<open>severe = 0\<close> the first test \<^verbatim>\<open>abs(0) >= 0\<close> succeeds, and the value 0
  is classified \<open>Severe\<close>.
\<close>

theorem classify_zero_counterexample:
  "float_gt (mild \<lparr>severe = Fin 0, moderate = Fin 2, mild = Fin 1\<rparr>) (Fin 0)
   \<and> classify_severity (Fin 0) \<lparr>severe = Fin 0, moderate = Fin 2, mild = Fin 1\<rparr> = Severe"
  by (simp add: classify_severity_def)

text \<open>
  C7: for bounds ordered severe \<ge> moderate \<ge> mild \<ge> 0, the severity does not decrease when
  the absolute value grows.
\<close>

theorem classify_severity_monotone:
  assumes "float_ge (severe thr) (moderate thr)"
    and "float_ge (moderate thr) (mild thr)"
    and "float_ge (mild thr) (Fin 0)"
    and "float_le (float_abs x) (float_abs y)"
  shows "severity_le (classify_severity x thr) (classify_severity y thr)"
proof -
  have up: "float_ge (float_abs x) b \<Longrightarrow> float_ge (float_abs y) b" for b
    using assms(4) float_ge_trans unfolding float_le_def by blast
  show ?thesis
    using up [of "severe thr"] up [of "moderate thr"] up [of "mild thr"]
    by (simp add: classify_severity_def severity_le_def Let_def)
qed

theorem classify_severity_monotone_witness:
  "float_le (float_abs (Fin (-1.5))) (float_abs (Fin 2.5))
   \<and> classify_severity (Fin (-1.5)) \<lparr>severe = Fin 3, moderate = Fin 2, mild = Fin 1\<rparr> = Mild
   \<and> classify_severity (Fin 2.5) \<lparr>severe = Fin 3, moderate = Fin 2, mild = Fin 1\<rparr> = Moderate
   \<and> severity_le (classify_severity (Fin (-1.5)) \<lparr>severe = Fin 3, moderate = Fin 2, mild = Fin 1\<rparr>)
        (classify_severity (Fin 2.5) \<lparr>severe = Fin 3, moderate = Fin 2, mild = Fin 1\<rparr>)"
  using classify_severity_monotone
    [of "\<lparr>severe = Fin 3, moderate = Fin 2, mild = Fin 1\<rparr>" "Fin (-1.5)" "Fin 2.5"]
  by (simp add: float_le_def classify_severity_def)

section \<open>The loops of cluster\_scores\<close>

lemma metric_value_spec: "metric_value run_row m = spec_metric_value run_row m"
  by (simp add: metric_value_def spec_metric_value_def dict_get_def split: option.splits)

lemma indicator_value_spec: "indicator_value run_row i = spec_indicator_value run_row i"
  by (simp add: indicator_value_def spec_indicator_value_def dict_get_def)

lemma update_fresh: "k \<notin> fst ` set al \<Longrightarrow> AList.update k v al = al @ [(k, v)]"
  by (induction al) auto

lemma update_mid:
  "k \<notin> fst ` set pre \<Longrightarrow> AList.update k v (pre @ (k, x) # rest) = pre @ (k, v) # rest"
  by (induction pre) auto

lemma map_of_mid: "k \<notin> fst ` set pre \<Longrightarrow> map_of (pre @ (k, x) # rest) k = Some x"
  by (induction pre) auto

lemma score_symptom_ok:
  assumes "thr_map ''global'' = Some g" and "map_of sc cname = Some s"
  shows "score_symptom thr_map cname key zv (sc, recs) =
           Inr (AList.update cname (s + WEIGHT (severity (symptom_of thr_map g cname (key, zv)))) sc,
                recs @ [symptom_of thr_map g cname (key, zv)])"
  using assms by (simp add: score_symptom_def dict_item_def symptom_of_def Let_def)

lemma metrics_loop_ok:
  assumes "thr_map ''global'' = Some g" and "map_of sc cname = Some s"
  shows "metrics_loop run_row thr_map cname ms (sc, recs) =
           Inr (AList.update cname
                  (s + weights (map (symptom_of thr_map g cname)
                     (List.map_filter (\<lambda>m. map_option (Pair m) (spec_metric_value run_row m)) ms))) sc,
                recs @ map (symptom_of thr_map g cname)
                     (List.map_filter (\<lambda>m. map_option (Pair m) (spec_metric_value run_row m)) ms))"
  using assms(2)
proof (induction ms arbitrary: sc recs s)
  case Nil
  then show ?case by (simp add: weights_def AList.update_triv)
next
  case (Cons m ms)
  show ?case
  proof (cases "spec_metric_value run_row m")
    case None
    with Cons show ?thesis by (simp add: metric_value_spec)
  next
    case (Some zv)
    let ?w = "WEIGHT (severity (symptom_of thr_map g cname (m, zv)))"
    have st: "score_symptom thr_map cname m zv (sc, recs) =
        Inr (AList.update cname (s + ?w) sc, recs @ [symptom_of thr_map g cname (m, zv)])"
      using assms(1) Cons.prems by (rule score_symptom_ok)
    have look: "map_of (AList.update cname (s + ?w) sc) cname = Some (s + ?w)"
      by (simp add: AList.update_conv')
    show ?thesis
      using Some st Cons.IH [OF look]
      by (simp add: metric_value_spec weights_def add.assoc)
  qed
qed

lemma indicators_loop_ok:
  assumes "thr_map ''global'' = Some g" and "map_of sc cname = Some s"
  shows "indicators_loop run_row thr_map cname inds (sc, recs) =
           Inr (AList.update cname
                  (s + weights (map (symptom_of thr_map g cname)
                     (List.map_filter (\<lambda>i. map_option (Pair i) (spec_indicator_value run_row i)) inds))) sc,
                recs @ map (symptom_of thr_map g cname)
                     (List.map_filter (\<lambda>i. map_option (Pair i) (spec_indicator_value run_row i)) inds))"
  using assms(2)
proof (induction inds arbitrary: sc recs s)
  case Nil
  then show ?case by (simp add: weights_def AList.update_triv)
next
  case (Cons i inds)
  show ?case
  proof (cases "spec_indicator_value run_row i")
    case None
    with Cons show ?thesis by (simp add: indicator_value_spec)
  next
    case (Some zv)
    let ?w = "WEIGHT (severity (symptom_of thr_map g cname (i, zv)))"
    have st: "score_symptom thr_map cname i zv (sc, recs) =
        Inr (AList.update cname (s + ?w) sc, recs @ [symptom_of thr_map g cname (i, zv)])"
      using assms(1) Cons.prems by (rule score_symptom_ok)
    have look: "map_of (AList.update cname (s + ?w) sc) cname = Some (s + ?w)"
      by (simp add: AList.update_conv')
    show ?thesis
      using Some st Cons.IH [OF look]
      by (simp add: indicator_value_spec weights_def add.assoc)
  qed
qed

lemma weights_cluster:
  "weights (cluster_symptoms run_row thr_map g cname c) = cluster_weight run_row thr_map g c"
  by (simp add: weights_def cluster_symptoms_def cluster_weight_def symptom_of_def comp_def)

lemma cluster_step_ok:
  assumes "thr_map ''global'' = Some g" and "map_of sc cname = Some s"
  shows "\<exists>st1. metrics_loop run_row thr_map cname (dict_get c ''metrics'' []) (sc, recs) = Inr st1
           \<and> indicators_loop run_row thr_map cname (dict_get c ''indicators'' []) st1 =
               Inr (AList.update cname (s + cluster_weight run_row thr_map g c) sc,
                    recs @ cluster_symptoms run_row thr_map g cname c)"
proof -
  let ?ms = "map (symptom_of thr_map g cname)
    (List.map_filter (\<lambda>m. map_option (Pair m) (spec_metric_value run_row m)) (dict_get c ''metrics'' []))"
  let ?is = "map (symptom_of thr_map g cname)
    (List.map_filter (\<lambda>i. map_option (Pair i) (spec_indicator_value run_row i)) (dict_get c ''indicators'' []))"
  have split: "cluster_symptoms run_row thr_map g cname c = ?ms @ ?is"
    by (simp add: cluster_symptoms_def resolved_keys_def)
  have w: "cluster_weight run_row thr_map g c = weights ?ms + weights ?is"
    unfolding weights_cluster [of run_row thr_map g cname c, symmetric] split by (simp add: weights_def)
  have look: "map_of (AList.update cname (s + weights ?ms) sc) cname = Some (s + weights ?ms)"
    by (simp add: AList.update_conv')
  have m: "metrics_loop run_row thr_map cname (dict_get c ''metrics'' []) (sc, recs) =
             Inr (AList.update cname (s + weights ?ms) sc, recs @ ?ms)"
    using assms by (rule metrics_loop_ok)
  have i: "indicators_loop run_row thr_map cname (dict_get c ''indicators'' [])
             (AList.update cname (s + weights ?ms) sc, recs @ ?ms) =
           Inr (AList.update cname (s + weights ?ms + weights ?is) (AList.update cname (s + weights ?ms) sc),
                (recs @ ?ms) @ ?is)"
    using assms(1) look by (rule indicators_loop_ok)
  show ?thesis
    unfolding m split w using i by (simp add: add.assoc)
qed

lemma clusters_loop_ok:
  assumes "thr_map ''global'' = Some g"
  shows "distinct (map fst cs) \<Longrightarrow> fst ` set cs \<inter> fst ` set pre = {} \<Longrightarrow>
         clusters_loop run_row thr_map cs (pre @ map (\<lambda>(cname, c). (cname, 0)) cs, recs) =
           Inr (pre @ map (\<lambda>(cname, c). (cname, cluster_weight run_row thr_map g c)) cs,
                recs @ concat (map (\<lambda>(cname, c). cluster_symptoms run_row thr_map g cname c) cs))"
proof (induction cs arbitrary: pre recs)
  case Nil
  then show ?case by simp
next
  case (Cons p cs)
  obtain cname c where p: "p = (cname, c)" by (cases p)
  let ?sc = "pre @ (cname, 0) # map (\<lambda>(cname, c). (cname, 0)) cs"
  let ?w = "cluster_weight run_row thr_map g c"
  have fresh: "cname \<notin> fst ` set pre" using Cons.prems(2) p by auto
  have look: "map_of ?sc cname = Some 0" using fresh by (rule map_of_mid)
  have upd: "AList.update cname (0 + ?w) ?sc =
               (pre @ [(cname, ?w)]) @ map (\<lambda>(cname, c). (cname, 0)) cs"
    using update_mid [OF fresh] by simp
  have d: "distinct (map fst cs)" using Cons.prems(1) by simp
  have disj: "fst ` set cs \<inter> fst ` set (pre @ [(cname, ?w)]) = {}"
    using Cons.prems p by auto
  obtain st1 where
    m: "metrics_loop run_row thr_map cname (dict_get c ''metrics'' []) (?sc, recs) = Inr st1" and
    i: "indicators_loop run_row thr_map cname (dict_get c ''indicators'' []) st1 =
          Inr ((pre @ [(cname, ?w)]) @ map (\<lambda>(cname, c). (cname, 0)) cs,
               recs @ cluster_symptoms run_row thr_map g cname c)"
    using cluster_step_ok [of thr_map g ?sc cname 0 run_row c recs] assms look upd by auto
  show ?case
    using m i Cons.IH [OF d disj, of "recs @ cluster_symptoms run_row thr_map g cname c"]
    by (simp add: p)
qed

lemma init_scores_ok:
  "distinct (map fst cs) \<Longrightarrow> fst ` set cs \<inter> fst ` set pre = {} \<Longrightarrow>
   init_scores cs pre = pre @ map (\<lambda>(cname, c). (cname, 0)) cs"
proof (induction cs arbitrary: pre)
  case Nil
  then show ?case by simp
next
  case (Cons p cs)
  obtain cname c where p: "p = (cname, c)" by (cases p)
  have fresh: "cname \<notin> fst ` set pre" using Cons.prems(2) p by auto
  have d: "distinct (map fst cs)" using Cons.prems(1) by simp
  have disj: "fst ` set cs \<inter> fst ` set (pre @ [(cname, 0)]) = {}"
    using Cons.prems p by auto
  show ?case
    using Cons.IH [OF d disj] update_fresh [OF fresh, of 0] by (simp add: p)
qed

lemma labels_loop_ok:
  "distinct (map fst sc) \<Longrightarrow> fst ` set sc \<inter> fst ` set pre = {} \<Longrightarrow>
   labels_loop sc pre = pre @ map (\<lambda>(cname, s). (cname, label_of s)) sc"
proof (induction sc arbitrary: pre)
  case Nil
  then show ?case by simp
next
  case (Cons p sc)
  obtain cname s where p: "p = (cname, s)" by (cases p)
  have fresh: "cname \<notin> fst ` set pre" using Cons.prems(2) p by auto
  have d: "distinct (map fst sc)" using Cons.prems(1) by simp
  have disj: "fst ` set sc \<inter> fst ` set (pre @ [(cname, label_of s)]) = {}"
    using Cons.prems p by auto
  show ?case
    using Cons.IH [OF d disj] update_fresh [OF fresh, of "label_of s"] by (simp add: p)
qed

lemma cluster_scores_ok:
  assumes "cluster_map ''clusters'' = Some cs"
    and "distinct (map fst cs)"
    and "thr_map ''global'' = Some g"
  shows "cluster_scores run_row cluster_map thr_map =
           Inr (map (\<lambda>(cname, c). (cname, cluster_weight run_row thr_map g c)) cs,
                map (\<lambda>(cname, c). (cname, label_of (cluster_weight run_row thr_map g c))) cs,
                concat (map (\<lambda>(cname, c). cluster_symptoms run_row thr_map g cname c) cs))"
proof -
  have init: "init_scores cs [] = [] @ map (\<lambda>(cname, c). (cname, 0)) cs"
    using assms(2) by (intro init_scores_ok) simp_all
  have loop: "clusters_loop run_row thr_map cs (init_scores cs [], []) =
      Inr ([] @ map (\<lambda>(cname, c). (cname, cluster_weight run_row thr_map g c)) cs,
           [] @ concat (map (\<lambda>(cname, c). cluster_symptoms run_row thr_map g cname c) cs))"
    unfolding init using assms(3,2) by (intro clusters_loop_ok) simp_all
  have dsc: "distinct (map fst (map (\<lambda>(cname, c). (cname, cluster_weight run_row thr_map g c)) cs))"
    using assms(2) by (simp add: comp_def case_prod_beta)
  have lab: "labels_loop (map (\<lambda>(cname, c). (cname, cluster_weight run_row thr_map g c)) cs) [] =
      [] @ map (\<lambda>(cname, s). (cname, label_of s))
        (map (\<lambda>(cname, c). (cname, cluster_weight run_row thr_map g c)) cs)"
    using dsc by (intro labels_loop_ok) simp_all
  show ?thesis
    using assms(1) loop lab
    by (simp add: cluster_scores_def dict_item_def comp_def case_prod_beta)
qed

text \<open>Without the entry \<^verbatim>\<open>"global"\<close> the first value that is not \<^verbatim>\<open>None\<close> raises.\<close>

lemma score_symptom_no_global:
  "thr_map ''global'' = None \<Longrightarrow> score_symptom thr_map cname key zv st = Inl (KeyError ''global'')"
  by (simp add: score_symptom_def dict_item_def)

lemma metrics_loop_no_global:
  assumes "thr_map ''global'' = None"
  shows "metrics_loop run_row thr_map cname ms st =
           (if List.map_filter (\<lambda>m. map_option (Pair m) (spec_metric_value run_row m)) ms = []
            then Inr st else Inl (KeyError ''global''))"
proof (induction ms)
  case Nil
  show ?case by simp
next
  case (Cons m ms)
  show ?case
  proof (cases "spec_metric_value run_row m")
    case None
    with Cons show ?thesis by (simp add: metric_value_spec)
  next
    case (Some zv)
    then show ?thesis
      using assms by (simp add: metric_value_spec score_symptom_no_global)
  qed
qed

lemma indicators_loop_no_global:
  assumes "thr_map ''global'' = None"
  shows "indicators_loop run_row thr_map cname inds st =
           (if List.map_filter (\<lambda>i. map_option (Pair i) (spec_indicator_value run_row i)) inds = []
            then Inr st else Inl (KeyError ''global''))"
proof (induction inds)
  case Nil
  show ?case by simp
next
  case (Cons i inds)
  show ?case
  proof (cases "spec_indicator_value run_row i")
    case None
    with Cons show ?thesis by (simp add: indicator_value_spec)
  next
    case (Some zv)
    then show ?thesis
      using assms by (simp add: indicator_value_spec score_symptom_no_global)
  qed
qed

lemma clusters_loop_no_global:
  assumes "thr_map ''global'' = None"
  shows "clusters_loop run_row thr_map cs st =
           (if list_ex (\<lambda>(cname, c). resolved_keys run_row c \<noteq> []) cs
            then Inl (KeyError ''global'') else Inr st)"
proof (induction cs)
  case Nil
  show ?case by simp
next
  case (Cons p cs)
  obtain cname c where p: "p = (cname, c)" by (cases p)
  show ?case
    using Cons assms
    by (simp add: p metrics_loop_no_global indicators_loop_no_global resolved_keys_def)
qed

text \<open>The loops never add or move a key of \<open>scores\<close>.\<close>

lemma score_symptom_keys:
  "score_symptom thr_map cname key zv st = Inr st' \<Longrightarrow> map fst (fst st') = map fst (fst st)"
proof -
  assume a: "score_symptom thr_map cname key zv st = Inr st'"
  then obtain s where s: "map_of (fst st) cname = Some s"
    by (auto simp: score_symptom_def dict_item_def split: option.splits)
  then have "(cname, s) \<in> set (fst st)" by (rule map_of_SomeD)
  then have "cname \<in> set (map fst (fst st))" by force
  then have uk: "map fst (AList.update cname v (fst st)) = map fst (fst st)" for v
    by (simp add: AList.update_keys)
  show ?thesis
    using a s
    by (auto simp: score_symptom_def dict_item_def Let_def uk split: option.splits)
qed

lemma metrics_loop_keys:
  "metrics_loop run_row thr_map cname ms st = Inr st' \<Longrightarrow> map fst (fst st') = map fst (fst st)"
proof (induction ms arbitrary: st)
  case Nil
  then show ?case by simp
next
  case (Cons m ms)
  then show ?case
    by (auto split: option.splits sum.splits dest: score_symptom_keys)
qed

lemma indicators_loop_keys:
  "indicators_loop run_row thr_map cname inds st = Inr st' \<Longrightarrow> map fst (fst st') = map fst (fst st)"
proof (induction inds arbitrary: st)
  case Nil
  then show ?case by simp
next
  case (Cons i inds)
  then show ?case
    by (auto split: option.splits sum.splits dest: score_symptom_keys)
qed

lemma clusters_loop_keys:
  "clusters_loop run_row thr_map cs st = Inr st' \<Longrightarrow> map fst (fst st') = map fst (fst st)"
proof (induction cs arbitrary: st)
  case Nil
  then show ?case by simp
next
  case (Cons p cs)
  obtain cname c where p: "p = (cname, c)" by (cases p)
  from Cons.prems obtain st1 st2 where
    m: "metrics_loop run_row thr_map cname (dict_get c ''metrics'' []) st = Inr st1" and
    i: "indicators_loop run_row thr_map cname (dict_get c ''indicators'' []) st1 = Inr st2" and
    r: "clusters_loop run_row thr_map cs st2 = Inr st'"
    by (auto simp: p split: sum.splits)
  show ?case
    using Cons.IH [OF r] indicators_loop_keys [OF i] metrics_loop_keys [OF m] by simp
qed

lemma init_scores_distinct:
  "distinct (map fst pre) \<Longrightarrow> distinct (map fst (init_scores cs pre))"
  by (induction cs arbitrary: pre) (auto simp: AList.distinct_update)

lemma cluster_scores_labels:
  assumes "cluster_scores run_row cluster_map thr_map = Inr (scores, labels, records)"
  shows "distinct (map fst scores) \<and> labels = map (\<lambda>(cname, s). (cname, label_of s)) scores"
proof -
  from assms obtain cs where
    loop: "clusters_loop run_row thr_map cs (init_scores cs [], []) = Inr (scores, records)" and
    lab: "labels = labels_loop scores []"
    by (auto simp: cluster_scores_def dict_item_def split: option.splits sum.splits)
  have "map fst scores = map fst (init_scores cs [])"
    using clusters_loop_keys [OF loop] by simp
  then have d: "distinct (map fst scores)"
    using init_scores_distinct [of "[]" cs] by simp
  then show ?thesis
    using labels_loop_ok [of scores "[]"] lab by simp
qed

text \<open>A metric whose value is \<^verbatim>\<open>None\<close> can be struck from the configuration.\<close>

lemma metrics_loop_filter:
  "metric_value run_row m = None \<Longrightarrow>
   metrics_loop run_row thr_map cname (filter (\<lambda>x. x \<noteq> m) ms) st =
   metrics_loop run_row thr_map cname ms st"
  by (induction ms arbitrary: st) (auto split: option.splits sum.splits)

lemma clusters_loop_filter:
  "metric_value run_row m = None \<Longrightarrow>
   clusters_loop run_row thr_map
     (map (\<lambda>(cname, c). (cname, c(''metrics'' \<mapsto> filter (\<lambda>x. x \<noteq> m) (dict_get c ''metrics'' [])))) cs) st =
   clusters_loop run_row thr_map cs st"
proof (induction cs arbitrary: st)
  case Nil
  show ?case by simp
next
  case (Cons p cs)
  obtain cname c where p: "p = (cname, c)" by (cases p)
  have g1: "dict_get (c(''metrics'' \<mapsto> xs)) ''metrics'' [] = xs" for xs
    by (simp add: dict_get_def)
  have g2: "dict_get (c(''metrics'' \<mapsto> xs)) ''indicators'' [] = dict_get c ''indicators'' []" for xs
    by (simp add: dict_get_def)
  let ?f = "\<lambda>(cname, c). (cname, c(''metrics'' \<mapsto> filter (\<lambda>x. x \<noteq> m) (dict_get c ''metrics'' [])))"
  have "clusters_loop run_row thr_map
          ((cname, c(''metrics'' \<mapsto> filter (\<lambda>x. x \<noteq> m) (dict_get c ''metrics'' []))) # map ?f cs) st =
        clusters_loop run_row thr_map ((cname, c) # cs) st"
    by (simp only: clusters_loop.simps g1 g2 metrics_loop_filter [OF Cons.prems]
        Cons.IH [OF Cons.prems] cong: sum.case_cong)
  then show ?case by (simp only: p list.map prod.case)
qed

lemma init_scores_names:
  "init_scores (map (\<lambda>(cname, c). (cname, f c)) cs) pre = init_scores cs pre"
  by (induction cs arbitrary: pre) auto

lemma cluster_scores_without_metric:
  assumes "metric_value run_row m = None"
  shows "cluster_scores run_row (without_metric m cluster_map) thr_map =
         cluster_scores run_row cluster_map thr_map"
proof (cases "cluster_map ''clusters''")
  case None
  then show ?thesis by (simp add: without_metric_def)
next
  case (Some cs)
  then show ?thesis
    using assms
    by (simp add: without_metric_def cluster_scores_def dict_item_def
        clusters_loop_filter init_scores_names)
qed

text \<open>Membership in \<open>List.map_filter\<close>, and the rows the loop over the runs appends.\<close>

lemma map_filter_member:
  "f x = Some y \<Longrightarrow> x \<in> set xs \<Longrightarrow> y \<in> set (List.map_filter f xs)"
  by (induction xs) (auto split: option.splits)

lemma diagnose_rows_symptom_rows:
  "diagnose_rows rows cluster_map thr_map (symptom_rows, cause_rows) = Inr (symptom_rows', cause_rows') \<Longrightarrow>
   \<forall>x \<in> set symptom_rows'. x \<in> set symptom_rows \<or> (\<exists>run r. x = symptom_row run r)"
proof (induction rows arbitrary: symptom_rows cause_rows)
  case Nil
  then show ?case by simp
next
  case (Cons row rows)
  from Cons.prems obtain scores labels recs run cause_row where
    rest: "diagnose_rows rows cluster_map thr_map
             (symptom_rows @ map (symptom_row run) recs, cause_rows @ [cause_row]) =
           Inr (symptom_rows', cause_rows')"
    by (auto split: sum.splits prod.splits)
  show ?case
    using Cons.IH [OF rest] by auto
qed

section \<open>The examples, evaluated\<close>

lemmas ex_defs = ex_thr_def ex_row_def ex_cm_def ex_tm_def ex2_row_def ex2_clusters_def ex2_cm_def ex2_tm_def

lemmas engine_defs = cluster_scores_def dict_item_def dict_get_def metric_value_def
  indicator_value_def score_symptom_def classify_severity_def label_of_def

section \<open>Properties of cluster\_scores\<close>

text \<open>
  C1: for a cluster map with distinct cluster names and a threshold map with the entry
  \<^verbatim>\<open>"global"\<close>, \<open>cluster_scores\<close> returns, and the score of every cluster is the sum of
  \<open>WEIGHT\<close> of the severity over the values resolved for its metrics and indicators, with
  the weights 0, 1, 2, 3; a cluster with no resolved key has score 0 and label \<^verbatim>\<open>none\<close>.
\<close>

theorem cluster_score_is_weight_sum:
  assumes "cluster_map ''clusters'' = Some cs"
    and "distinct (map fst cs)"
    and "thr_map ''global'' = Some g"
  shows "\<exists>scores labels records.
           cluster_scores run_row cluster_map thr_map = Inr (scores, labels, records)
           \<and> (\<forall>(cname, c) \<in> set cs.
                 map_of scores cname =
                   Some (sum_list (map (\<lambda>(k, v). WEIGHT (classify_severity v (dict_get thr_map k g)))
                           (resolved_keys run_row c)))
                 \<and> (resolved_keys run_row c = [] \<longrightarrow>
                      map_of scores cname = Some 0 \<and> map_of labels cname = Some ''none''))
           \<and> WEIGHT Normal = 0 \<and> WEIGHT Mild = 1 \<and> WEIGHT Moderate = 2 \<and> WEIGHT Severe = 3"
proof -
  let ?w = "cluster_weight run_row thr_map g"
  let ?scores = "map (\<lambda>(cname, c). (cname, ?w c)) cs"
  let ?labels = "map (\<lambda>(cname, c). (cname, label_of (?w c))) cs"
  have res: "cluster_scores run_row cluster_map thr_map =
      Inr (?scores, ?labels, concat (map (\<lambda>(cname, c). cluster_symptoms run_row thr_map g cname c) cs))"
    using assms by (rule cluster_scores_ok)
  have sc: "map_of ?scores cname = Some (?w c)" if "(cname, c) \<in> set cs" for cname c
    using that assms(2) by (simp add: map_of_map map_of_is_SomeI)
  have lb: "map_of ?labels cname = Some (label_of (?w c))" if "(cname, c) \<in> set cs" for cname c
  proof -
    have "?labels = map (\<lambda>(cname, c). (cname, (label_of \<circ> ?w) c)) cs" by simp
    then show ?thesis using that assms(2) by (simp only: map_of_map) (simp add: map_of_is_SomeI)
  qed
  have w: "?w c = sum_list (map (\<lambda>(k, v). WEIGHT (classify_severity v (dict_get thr_map k g)))
             (resolved_keys run_row c))" for c
    by (simp add: cluster_weight_def case_prod_unfold)
  have w0: "resolved_keys run_row c = [] \<Longrightarrow> ?w c = 0" for c
    by (simp add: cluster_weight_def)
  show ?thesis
    unfolding res using sc lb w w0 by (auto simp: label_of_def)
qed

theorem cluster_score_is_weight_sum_witness:
  "ex2_cm ''clusters'' = Some ex2_clusters \<and> distinct (map fst ex2_clusters)
   \<and> ex2_tm ''global'' = Some ex_thr
   \<and> (\<exists>scores labels records.
         cluster_scores ex2_row ex2_cm ex2_tm = Inr (scores, labels, records)
         \<and> map_of scores ''C'' = Some 3 \<and> map_of scores ''E'' = Some 0
         \<and> map_of labels ''E'' = Some ''none'')"
proof -
  have h1: "ex2_cm ''clusters'' = Some ex2_clusters" by (simp add: ex2_cm_def)
  have h2: "distinct (map fst ex2_clusters)" by (simp add: ex2_clusters_def)
  have h3: "ex2_tm ''global'' = Some ex_thr" by (simp add: ex2_tm_def)
  from cluster_score_is_weight_sum [of ex2_cm ex2_clusters ex2_tm ex_thr ex2_row, OF h1 h2 h3]
  obtain scores labels records where
    r: "cluster_scores ex2_row ex2_cm ex2_tm = Inr (scores, labels, records)" and
    a: "\<forall>(cname, c) \<in> set ex2_clusters.
         map_of scores cname =
           Some (sum_list (map (\<lambda>(k, v). WEIGHT (classify_severity v (dict_get ex2_tm k ex_thr)))
                   (resolved_keys ex2_row c)))
         \<and> (resolved_keys ex2_row c = [] \<longrightarrow>
              map_of scores cname = Some 0 \<and> map_of labels cname = Some ''none'')"
    by blast
  have c: "map_of scores ''C'' = Some 3"
    using a
    by (simp add: ex2_clusters_def resolved_keys_def spec_metric_value_def spec_indicator_value_def
        ex2_row_def ex2_tm_def ex_thr_def dict_get_def classify_severity_def)
  have e: "map_of scores ''E'' = Some 0 \<and> map_of labels ''E'' = Some ''none''"
    using a
    by (simp add: ex2_clusters_def resolved_keys_def spec_metric_value_def spec_indicator_value_def
        ex2_row_def dict_get_def)
  show ?thesis using h1 h2 h3 r c e by blast
qed

text \<open>
  C3: the label of a score is \<^verbatim>\<open>strong\<close> from 6, \<^verbatim>\<open>moderate\<close> from 3 to 5, \<^verbatim>\<open>weak\<close> for 1
  and 2, \<^verbatim>\<open>none\<close> below 1, and every cluster of a result is labelled by this one function
  of its score.
\<close>

theorem label_breakpoints:
  "label_of s =
     (if s \<ge> 6 then ''strong''
      else if 3 \<le> s \<and> s < 6 then ''moderate''
      else if 1 \<le> s \<and> s < 3 then ''weak''
      else ''none'')
   \<and> label_of 6 = ''strong'' \<and> label_of 5 = ''moderate'' \<and> label_of 3 = ''moderate''
   \<and> label_of 2 = ''weak'' \<and> label_of 1 = ''weak'' \<and> label_of 0 = ''none''
   \<and> (cluster_scores run_row cluster_map thr_map = Inr (scores, labels, records) \<longrightarrow>
        labels = map (\<lambda>(cname, s). (cname, label_of s)) scores)"
  using cluster_scores_labels [of run_row cluster_map thr_map scores labels records]
  by (simp add: label_of_def)

theorem label_breakpoints_witness:
  "label_of 4 = ''moderate''
   \<and> cluster_scores ex2_row ex2_cm ex2_tm =
       Inr ([(''C'', 3), (''E'', 0)], [(''C'', ''moderate''), (''E'', ''none'')],
         [\<lparr>metric = ''A'', zscore = Fin 0.5, severity = Normal, cluster = ''C''\<rparr>,
          \<lparr>metric = ''B'', zscore = Fin (-2.5), severity = Moderate, cluster = ''C''\<rparr>,
          \<lparr>metric = ''chi2'', zscore = Fin 4, severity = Mild, cluster = ''C''\<rparr>])
   \<and> [(''C'', ''moderate''), (''E'', ''none'')] =
       map (\<lambda>(cname, s). (cname, label_of s)) [(''C'', 3), (''E'', 0)]"
proof -
  let ?recs = "[\<lparr>metric = ''A'', zscore = Fin 0.5, severity = Normal, cluster = ''C''\<rparr>,
        \<lparr>metric = ''B'', zscore = Fin (-2.5), severity = Moderate, cluster = ''C''\<rparr>,
        \<lparr>metric = ''chi2'', zscore = Fin 4, severity = Mild, cluster = ''C''\<rparr>]"
  have r: "cluster_scores ex2_row ex2_cm ex2_tm =
      Inr ([(''C'', 3), (''E'', 0)], [(''C'', ''moderate''), (''E'', ''none'')], ?recs)"
    by (simp add: ex_defs engine_defs)
  have l: "[(''C'', ''moderate''), (''E'', ''none'')] =
       map (\<lambda>(cname, s). (cname, label_of s)) [(''C'', 3), (''E'', 0)]"
    using label_breakpoints [of 4 ex2_row ex2_cm ex2_tm "[(''C'', 3), (''E'', 0)]"
      "[(''C'', ''moderate''), (''E'', ''none'')]" ?recs] r
    by blast
  have "label_of 4 = ''moderate''" by (simp add: label_of_def)
  then show ?thesis using r l by blast
qed

text \<open>
  C10: when the threshold map has no entry \<^verbatim>\<open>"global"\<close>, \<open>cluster_scores\<close> raises
  \<^verbatim>\<open>KeyError('global')\<close> exactly when some configured metric or indicator resolves to a
  value, whatever other entries the threshold map has; when nothing resolves it returns
  the initial scores, their labels and no record.
\<close>

theorem missing_global_raises:
  assumes "cluster_map ''clusters'' = Some cs"
    and "thr_map ''global'' = None"
  shows "cluster_scores run_row cluster_map thr_map =
           (if list_ex (\<lambda>(cname, c). resolved_keys run_row c \<noteq> []) cs
            then Inl (KeyError ''global'')
            else Inr (init_scores cs [], labels_loop (init_scores cs []) [], []))"
  using assms
  by (simp add: cluster_scores_def dict_item_def clusters_loop_no_global)

theorem missing_global_raises_witness:
  "ex_cm ''clusters'' = Some [(''C'', map_of [(''metrics'', [''A'', ''B''])])]
   \<and> ex10_tm ''global'' = None \<and> ex10_tm ''A'' = Some ex_thr \<and> ex10_tm ''B'' = Some ex_thr
   \<and> cluster_scores ex_row ex_cm ex10_tm = Inl (KeyError ''global'')
   \<and> cluster_scores ex_empty_row ex_cm ex10_tm = Inr ([(''C'', 0)], [(''C'', ''none'')], [])"
  using missing_global_raises [of ex_cm "[(''C'', map_of [(''metrics'', [''A'', ''B''])])]" ex10_tm ex_row]
    missing_global_raises [of ex_cm "[(''C'', map_of [(''metrics'', [''A'', ''B''])])]" ex10_tm ex_empty_row]
  by (simp add: ex_cm_def ex10_tm_def ex_row_def ex_empty_row_def resolved_keys_def
      spec_metric_value_def spec_indicator_value_def dict_get_def label_of_def)

text \<open>
  C4: the value of a metric \<open>m\<close> is the entry under \<^verbatim>\<open>"z_" + m\<close> when the row has that key,
  and the entry under \<^verbatim>\<open>m + "_z_local"\<close> only when it has not. When the row has neither
  key, \<open>cluster_scores\<close> returns what it returns for the configuration without \<open>m\<close>: no
  score contribution and no record. When the value is there, its record is in the result.
\<close>

theorem metric_resolution_order:
  "metric_value run_row m =
     (case run_row (''z_'' @ m) of
        Some v \<Rightarrow> v
      | None \<Rightarrow> (case run_row (m @ ''_z_local'') of Some v \<Rightarrow> v | None \<Rightarrow> None))
   \<and> (run_row (''z_'' @ m) = None \<and> run_row (m @ ''_z_local'') = None \<longrightarrow>
        cluster_scores run_row (without_metric m cluster_map) thr_map =
        cluster_scores run_row cluster_map thr_map)
   \<and> (cluster_map ''clusters'' = Some cs \<and> distinct (map fst cs) \<and> thr_map ''global'' = Some g
        \<and> (cname, c) \<in> set cs \<and> m \<in> set (dict_get c ''metrics'' [])
        \<and> metric_value run_row m = Some v \<longrightarrow>
        (\<exists>scores labels records.
           cluster_scores run_row cluster_map thr_map = Inr (scores, labels, records)
           \<and> \<lparr>metric = m, zscore = v, severity = classify_severity v (dict_get thr_map m g),
               cluster = cname\<rparr> \<in> set records))"
proof (intro conjI impI)
  show "metric_value run_row m =
     (case run_row (''z_'' @ m) of
        Some v \<Rightarrow> v
      | None \<Rightarrow> (case run_row (m @ ''_z_local'') of Some v \<Rightarrow> v | None \<Rightarrow> None))"
    by (simp add: metric_value_def dict_get_def)
next
  assume "run_row (''z_'' @ m) = None \<and> run_row (m @ ''_z_local'') = None"
  then have "metric_value run_row m = None"
    by (simp add: metric_value_def dict_get_def)
  then show "cluster_scores run_row (without_metric m cluster_map) thr_map =
        cluster_scores run_row cluster_map thr_map"
    by (rule cluster_scores_without_metric)
next
  assume a: "cluster_map ''clusters'' = Some cs \<and> distinct (map fst cs) \<and> thr_map ''global'' = Some g
        \<and> (cname, c) \<in> set cs \<and> m \<in> set (dict_get c ''metrics'' [])
        \<and> metric_value run_row m = Some v"
  then have h: "cluster_map ''clusters'' = Some cs" "distinct (map fst cs)" "thr_map ''global'' = Some g"
    by simp_all
  have res: "cluster_scores run_row cluster_map thr_map =
      Inr (map (\<lambda>(cname, c). (cname, cluster_weight run_row thr_map g c)) cs,
           map (\<lambda>(cname, c). (cname, label_of (cluster_weight run_row thr_map g c))) cs,
           concat (map (\<lambda>(cname, c). cluster_symptoms run_row thr_map g cname c) cs))"
    using h by (rule cluster_scores_ok)
  have "(m, v) \<in> set (resolved_keys run_row c)"
    using a map_filter_member [of "\<lambda>m. map_option (Pair m) (spec_metric_value run_row m)" m "(m, v)"
        "dict_get c ''metrics'' []"]
    by (simp add: resolved_keys_def metric_value_spec)
  then have "symptom_of thr_map g cname (m, v) \<in> set (cluster_symptoms run_row thr_map g cname c)"
    by (simp add: cluster_symptoms_def)
  then have "\<lparr>metric = m, zscore = v, severity = classify_severity v (dict_get thr_map m g),
               cluster = cname\<rparr>
      \<in> set (concat (map (\<lambda>(cname, c). cluster_symptoms run_row thr_map g cname c) cs))"
    using a by (fastforce simp: symptom_of_def)
  then show "\<exists>scores labels records.
           cluster_scores run_row cluster_map thr_map = Inr (scores, labels, records)
           \<and> \<lparr>metric = m, zscore = v, severity = classify_severity v (dict_get thr_map m g),
               cluster = cname\<rparr> \<in> set records"
    unfolding res by blast
qed

theorem metric_resolution_order_witness:
  "ex2_row (''z_'' @ ''A'') = Some (Some (Fin 0.5)) \<and> ex2_row (''A'' @ ''_z_local'') = Some (Some (Fin 9))
   \<and> metric_value ex2_row ''A'' = Some (Fin 0.5)
   \<and> ex2_row (''z_'' @ ''B'') = None \<and> metric_value ex2_row ''B'' = Some (Fin (-2.5))
   \<and> ex2_row (''z_'' @ ''M'') = None \<and> ex2_row (''M'' @ ''_z_local'') = None
   \<and> cluster_scores ex2_row (without_metric ''M'' ex2_cm) ex2_tm = cluster_scores ex2_row ex2_cm ex2_tm
   \<and> (\<exists>scores labels records.
         cluster_scores ex2_row ex2_cm ex2_tm = Inr (scores, labels, records)
         \<and> \<lparr>metric = ''B'', zscore = Fin (-2.5), severity = Moderate, cluster = ''C''\<rparr> \<in> set records)"
proof -
  let ?c = "map_of [(''metrics'', [''A'', ''B'', ''M'']), (''indicators'', [''chi2'', ''ndf''])]"
  have rowA: "ex2_row (''z_'' @ ''A'') = Some (Some (Fin 0.5))"
      "ex2_row (''A'' @ ''_z_local'') = Some (Some (Fin 9))"
    by (simp_all add: ex2_row_def)
  have rowB: "ex2_row (''z_'' @ ''B'') = None" "ex2_row (''B'' @ ''_z_local'') = Some (Some (Fin (-2.5)))"
    by (simp_all add: ex2_row_def)
  have rowM: "ex2_row (''z_'' @ ''M'') = None" "ex2_row (''M'' @ ''_z_local'') = None"
    by (simp_all add: ex2_row_def)
  have vA: "metric_value ex2_row ''A'' = Some (Fin 0.5)"
    using metric_resolution_order [of ex2_row "''A''"] rowA by simp
  have vB: "metric_value ex2_row ''B'' = Some (Fin (-2.5))"
    using metric_resolution_order [of ex2_row "''B''"] rowB by simp
  have skip: "cluster_scores ex2_row (without_metric ''M'' ex2_cm) ex2_tm =
      cluster_scores ex2_row ex2_cm ex2_tm"
    using metric_resolution_order [of ex2_row "''M''" ex2_cm ex2_tm] rowM by blast
  have hyp: "ex2_cm ''clusters'' = Some ex2_clusters \<and> distinct (map fst ex2_clusters)
      \<and> ex2_tm ''global'' = Some ex_thr \<and> (''C'', ?c) \<in> set ex2_clusters
      \<and> ''B'' \<in> set (dict_get ?c ''metrics'' [])"
    by (simp add: ex2_cm_def ex2_clusters_def ex2_tm_def dict_get_def)
  have sev: "classify_severity (Fin (-2.5)) (dict_get ex2_tm ''B'' ex_thr) = Moderate"
    by (simp add: ex2_tm_def ex_thr_def dict_get_def classify_severity_def)
  have rec: "\<exists>scores labels records.
         cluster_scores ex2_row ex2_cm ex2_tm = Inr (scores, labels, records)
         \<and> \<lparr>metric = ''B'', zscore = Fin (-2.5), severity = Moderate, cluster = ''C''\<rparr> \<in> set records"
    using metric_resolution_order [of ex2_row "''B''" ex2_cm ex2_tm ex2_clusters ex_thr "''C''" ?c
        "Fin (-2.5)"] hyp vB
    unfolding sev by blast
  show ?thesis using rowA rowB rowM vA vB skip rec by blast
qed

text \<open>
  C5 as amended: with the entry \<^verbatim>\<open>"global"\<close> in the threshold map, every value resolved
  for a cluster is classified with the thresholds resolved for its configured metric or
  indicator name: the entry under that name if there is one, else \<^verbatim>\<open>"global"\<close>. For a
  metric \<open>m\<close> the name is \<open>m\<close> itself, not the row key under which the value was found.
  The records are exactly these classifications, one per resolved value and in order.
\<close>

theorem thresholds_resolved_by_configured_key:
  assumes "cluster_map ''clusters'' = Some cs"
    and "distinct (map fst cs)"
    and "thr_map ''global'' = Some g"
  shows "\<exists>scores labels records.
           cluster_scores run_row cluster_map thr_map = Inr (scores, labels, records)
           \<and> map Some records =
               concat (map (\<lambda>(cname, c).
                 map (\<lambda>(k, v).
                        map_option
                          (\<lambda>thr. \<lparr>metric = k, zscore = v, severity = classify_severity v thr,
                                   cluster = cname\<rparr>)
                          (spec_resolve k thr_map))
                   (resolved_keys run_row c)) cs)
           \<and> (\<forall>(cname, c) \<in> set cs. \<forall>(k, v) \<in> set (resolved_keys run_row c).
                 \<exists>thr. spec_resolve k thr_map = Some thr
                   \<and> thr = (case thr_map k of Some t \<Rightarrow> t | None \<Rightarrow> g)
                   \<and> \<lparr>metric = k, zscore = v, severity = classify_severity v thr,
                       cluster = cname\<rparr> \<in> set records)
           \<and> (\<forall>r \<in> set records.
                 map_option (classify_severity (zscore r)) (spec_resolve (metric r) thr_map) =
                   Some (severity r)
                 \<and> (\<exists>(cname, c) \<in> set cs.
                       cluster r = cname \<and> (metric r, zscore r) \<in> set (resolved_keys run_row c)))"
proof -
  let ?recs = "concat (map (\<lambda>(cname, c). cluster_symptoms run_row thr_map g cname c) cs)"
  have res: "cluster_scores run_row cluster_map thr_map =
      Inr (map (\<lambda>(cname, c). (cname, cluster_weight run_row thr_map g c)) cs,
           map (\<lambda>(cname, c). (cname, label_of (cluster_weight run_row thr_map g c))) cs,
           ?recs)"
    using assms by (rule cluster_scores_ok)
  have sr: "spec_resolve k thr_map = Some (dict_get thr_map k g)" for k
    using assms(3) by (simp add: spec_resolve_def dict_get_def split: option.splits)
  have dg: "dict_get thr_map k g = (case thr_map k of Some t \<Rightarrow> t | None \<Rightarrow> g)" for k
    by (simp add: dict_get_def)
  have eq: "map Some (concat (map (\<lambda>(cname, c). cluster_symptoms run_row thr_map g cname c) xs)) =
      concat (map (\<lambda>(cname, c).
                 map (\<lambda>(k, v).
                        map_option
                          (\<lambda>thr. \<lparr>metric = k, zscore = v, severity = classify_severity v thr,
                                   cluster = cname\<rparr>)
                          (spec_resolve k thr_map))
                   (resolved_keys run_row c)) xs)" for xs
    by (induction xs)
      (auto simp: cluster_symptoms_def symptom_of_def sr case_prod_unfold)
  have each: "\<exists>thr. spec_resolve k thr_map = Some thr
                   \<and> thr = (case thr_map k of Some t \<Rightarrow> t | None \<Rightarrow> g)
                   \<and> \<lparr>metric = k, zscore = v, severity = classify_severity v thr,
                       cluster = cname\<rparr> \<in> set ?recs"
    if c: "(cname, c) \<in> set cs" and kv: "(k, v) \<in> set (resolved_keys run_row c)" for cname c k v
  proof -
    have "symptom_of thr_map g cname (k, v) \<in> set (cluster_symptoms run_row thr_map g cname c)"
      using kv by (simp add: cluster_symptoms_def)
    then have "\<lparr>metric = k, zscore = v, severity = classify_severity v (dict_get thr_map k g),
                 cluster = cname\<rparr> \<in> set ?recs"
      using c by (fastforce simp: symptom_of_def)
    then show ?thesis using sr [of k] dg [of k] by simp
  qed
  have one: "map_option (classify_severity (zscore r)) (spec_resolve (metric r) thr_map) =
                 Some (severity r)
             \<and> cluster r = cname \<and> (metric r, zscore r) \<in> set (resolved_keys run_row c)"
    if "r \<in> set (cluster_symptoms run_row thr_map g cname c)" for r cname c
    using that by (auto simp: cluster_symptoms_def symptom_of_def sr)
  have bwd: "\<forall>r \<in> set (?recs).
                 map_option (classify_severity (zscore r)) (spec_resolve (metric r) thr_map) =
                   Some (severity r)
                 \<and> (\<exists>(cname, c) \<in> set cs.
                       cluster r = cname \<and> (metric r, zscore r) \<in> set (resolved_keys run_row c))"
    using one by fastforce
  have fwd: "\<forall>(cname, c) \<in> set cs. \<forall>(k, v) \<in> set (resolved_keys run_row c).
                 \<exists>thr. spec_resolve k thr_map = Some thr
                   \<and> thr = (case thr_map k of Some t \<Rightarrow> t | None \<Rightarrow> g)
                   \<and> \<lparr>metric = k, zscore = v, severity = classify_severity v thr,
                       cluster = cname\<rparr> \<in> set ?recs"
    using each by blast
  show ?thesis
    unfolding res using eq [of cs] fwd bwd by blast
qed

theorem thresholds_resolved_by_configured_key_witness:
  "ex2_cm ''clusters'' = Some ex2_clusters \<and> distinct (map fst ex2_clusters)
   \<and> ex2_tm ''global'' = Some ex_thr
   \<and> spec_resolve ''A'' ex2_tm = Some ex_thr
   \<and> spec_resolve ''B'' ex2_tm = Some ex_thr
   \<and> spec_resolve ''chi2'' ex2_tm = Some \<lparr>severe = Fin 10, moderate = Fin 5, mild = Fin 3\<rparr>
   \<and> classify_severity (Fin 4) ex_thr = Severe
   \<and> (\<exists>scores labels records.
         cluster_scores ex2_row ex2_cm ex2_tm = Inr (scores, labels, records)
         \<and> map Some records =
             [Some \<lparr>metric = ''A'', zscore = Fin 0.5, severity = Normal, cluster = ''C''\<rparr>,
              Some \<lparr>metric = ''B'', zscore = Fin (-2.5), severity = Moderate, cluster = ''C''\<rparr>,
              Some \<lparr>metric = ''chi2'', zscore = Fin 4, severity = Mild, cluster = ''C''\<rparr>])"
proof -
  have h1: "ex2_cm ''clusters'' = Some ex2_clusters" by (simp add: ex2_cm_def)
  have h2: "distinct (map fst ex2_clusters)" by (simp add: ex2_clusters_def)
  have h3: "ex2_tm ''global'' = Some ex_thr" by (simp add: ex2_tm_def)
  have sA: "spec_resolve ''A'' ex2_tm = Some ex_thr"
    and sB: "spec_resolve ''B'' ex2_tm = Some ex_thr"
    and sC: "spec_resolve ''chi2'' ex2_tm = Some \<lparr>severe = Fin 10, moderate = Fin 5, mild = Fin 3\<rparr>"
    by (simp_all add: spec_resolve_def ex2_tm_def)
  have g4: "classify_severity (Fin 4) ex_thr = Severe"
    by (simp add: classify_severity_def ex_thr_def)
  from thresholds_resolved_by_configured_key [of ex2_cm ex2_clusters ex2_tm ex_thr ex2_row, OF h1 h2 h3]
  obtain scores labels records where
    r: "cluster_scores ex2_row ex2_cm ex2_tm = Inr (scores, labels, records)" and
    a: "map Some records =
               concat (map (\<lambda>(cname, c).
                 map (\<lambda>(k, v).
                        map_option
                          (\<lambda>thr. \<lparr>metric = k, zscore = v, severity = classify_severity v thr,
                                   cluster = cname\<rparr>)
                          (spec_resolve k ex2_tm))
                   (resolved_keys ex2_row c)) ex2_clusters)"
    by blast
  have m: "map Some records =
             [Some \<lparr>metric = ''A'', zscore = Fin 0.5, severity = Normal, cluster = ''C''\<rparr>,
              Some \<lparr>metric = ''B'', zscore = Fin (-2.5), severity = Moderate, cluster = ''C''\<rparr>,
              Some \<lparr>metric = ''chi2'', zscore = Fin 4, severity = Mild, cluster = ''C''\<rparr>]"
    unfolding a
    by (simp add: ex2_clusters_def resolved_keys_def spec_metric_value_def
        spec_indicator_value_def ex2_row_def dict_get_def sA sB sC ex_thr_def
        classify_severity_def)
  have ex: "\<exists>scores labels records.
         cluster_scores ex2_row ex2_cm ex2_tm = Inr (scores, labels, records)
         \<and> map Some records =
             [Some \<lparr>metric = ''A'', zscore = Fin 0.5, severity = Normal, cluster = ''C''\<rparr>,
              Some \<lparr>metric = ''B'', zscore = Fin (-2.5), severity = Moderate, cluster = ''C''\<rparr>,
              Some \<lparr>metric = ''chi2'', zscore = Fin 4, severity = Mild, cluster = ''C''\<rparr>]"
    by (rule exI [of _ scores], rule exI [of _ labels], rule exI [of _ records])
      (rule conjI [OF r m])
  show ?thesis
    by (intro conjI h1 h2 h3 sA sB sC g4 ex)
qed

text \<open>
  The value of \<^verbatim>\<open>A\<close> is found under the row key \<^verbatim>\<open>z_A\<close>. The threshold map has an entry
  under \<^verbatim>\<open>z_A\<close> that would make 2.5 \<open>Normal\<close>, but the lookup is by \<^verbatim>\<open>A\<close>, falls back to
  \<^verbatim>\<open>"global"\<close> and gives \<open>Moderate\<close>. And a threshold map with an entry for \<^verbatim>\<open>A\<close> but none
  for \<^verbatim>\<open>"global"\<close> raises instead of using that entry.
\<close>

theorem thresholds_by_row_key_counterexample:
  "ex_row ''z_A'' = Some (Some (Fin 2.5))
   \<and> spec_resolve ''z_A'' ex5_tm = Some \<lparr>severe = Fin 30, moderate = Fin 20, mild = Fin 10\<rparr>
   \<and> classify_severity (Fin 2.5) \<lparr>severe = Fin 30, moderate = Fin 20, mild = Fin 10\<rparr> = Normal
   \<and> cluster_scores ex_row ex_cm ex5_tm =
       Inr ([(''C'', 5)], [(''C'', ''moderate'')],
            [\<lparr>metric = ''A'', zscore = Fin 2.5, severity = Moderate, cluster = ''C''\<rparr>,
             \<lparr>metric = ''B'', zscore = Fin 3.5, severity = Severe, cluster = ''C''\<rparr>])
   \<and> spec_resolve ''A'' ex10_tm = Some ex_thr
   \<and> cluster_scores ex_row ex_cm ex10_tm = Inl (KeyError ''global'')"
  by (simp add: ex_defs ex5_tm_def ex10_tm_def engine_defs spec_resolve_def)

text \<open>
  C8: with distinct cluster names and the entry \<^verbatim>\<open>"global"\<close>, the records are, cluster by
  cluster and key by key in configuration order, exactly one record per resolved value,
  with the key, the value, its severity (also \<open>Normal\<close>) and the cluster name: nothing for
  a key that does not resolve.
\<close>

theorem one_record_per_resolved_value:
  assumes "cluster_map ''clusters'' = Some cs"
    and "distinct (map fst cs)"
    and "thr_map ''global'' = Some g"
  shows "\<exists>scores labels records.
           cluster_scores run_row cluster_map thr_map = Inr (scores, labels, records)
           \<and> records =
               concat (map (\<lambda>(cname, c).
                 map (\<lambda>(k, v). \<lparr>metric = k, zscore = v,
                                 severity = classify_severity v (dict_get thr_map k g),
                                 cluster = cname\<rparr>)
                   (resolved_keys run_row c)) cs)
           \<and> length records = sum_list (map (\<lambda>(cname, c). length (resolved_keys run_row c)) cs)"
proof -
  have eq: "cluster_symptoms run_row thr_map g =
      (\<lambda>cname c. map (\<lambda>(k, v). \<lparr>metric = k, zscore = v,
                      severity = classify_severity v (dict_get thr_map k g), cluster = cname\<rparr>)
        (resolved_keys run_row c))"
    by (intro ext) (simp add: cluster_symptoms_def symptom_of_def case_prod_unfold)
  have len: "length (concat (map (\<lambda>(cname, c). cluster_symptoms run_row thr_map g cname c) xs)) =
      sum_list (map (\<lambda>(cname, c). length (resolved_keys run_row c)) xs)" for xs
    by (induction xs) (auto simp: cluster_symptoms_def)
  have res: "cluster_scores run_row cluster_map thr_map =
      Inr (map (\<lambda>(cname, c). (cname, cluster_weight run_row thr_map g c)) cs,
           map (\<lambda>(cname, c). (cname, label_of (cluster_weight run_row thr_map g c))) cs,
           concat (map (\<lambda>(cname, c). cluster_symptoms run_row thr_map g cname c) cs))"
    using assms by (rule cluster_scores_ok)
  show ?thesis
    unfolding res using len [of cs] by (simp add: eq)
qed

theorem one_record_per_resolved_value_witness:
  "ex2_cm ''clusters'' = Some ex2_clusters \<and> distinct (map fst ex2_clusters)
   \<and> ex2_tm ''global'' = Some ex_thr
   \<and> map (resolved_keys ex2_row \<circ> snd) ex2_clusters =
       [[(''A'', Fin 0.5), (''B'', Fin (-2.5)), (''chi2'', Fin 4)], []]
   \<and> (\<exists>scores labels records.
         cluster_scores ex2_row ex2_cm ex2_tm = Inr (scores, labels, records)
         \<and> records =
           [\<lparr>metric = ''A'', zscore = Fin 0.5, severity = Normal, cluster = ''C''\<rparr>,
            \<lparr>metric = ''B'', zscore = Fin (-2.5), severity = Moderate, cluster = ''C''\<rparr>,
            \<lparr>metric = ''chi2'', zscore = Fin 4, severity = Mild, cluster = ''C''\<rparr>])"
proof -
  have h1: "ex2_cm ''clusters'' = Some ex2_clusters" by (simp add: ex2_cm_def)
  have h2: "distinct (map fst ex2_clusters)" by (simp add: ex2_clusters_def)
  have h3: "ex2_tm ''global'' = Some ex_thr" by (simp add: ex2_tm_def)
  have rk: "map (resolved_keys ex2_row \<circ> snd) ex2_clusters =
       [[(''A'', Fin 0.5), (''B'', Fin (-2.5)), (''chi2'', Fin 4)], []]"
    by (simp add: ex2_clusters_def resolved_keys_def spec_metric_value_def
        spec_indicator_value_def ex2_row_def dict_get_def)
  from one_record_per_resolved_value [of ex2_cm ex2_clusters ex2_tm ex_thr ex2_row, OF h1 h2 h3]
  obtain scores labels records where
    r: "cluster_scores ex2_row ex2_cm ex2_tm = Inr (scores, labels, records)" and
    a: "records =
          concat (map (\<lambda>(cname, c).
            map (\<lambda>(k, v). \<lparr>metric = k, zscore = v,
                            severity = classify_severity v (dict_get ex2_tm k ex_thr),
                            cluster = cname\<rparr>)
              (resolved_keys ex2_row c)) ex2_clusters)"
    by blast
  have "records =
           [\<lparr>metric = ''A'', zscore = Fin 0.5, severity = Normal, cluster = ''C''\<rparr>,
            \<lparr>metric = ''B'', zscore = Fin (-2.5), severity = Moderate, cluster = ''C''\<rparr>,
            \<lparr>metric = ''chi2'', zscore = Fin 4, severity = Mild, cluster = ''C''\<rparr>]"
    unfolding a
    by (simp add: ex2_clusters_def resolved_keys_def spec_metric_value_def
        spec_indicator_value_def ex2_row_def ex2_tm_def ex_thr_def dict_get_def
        classify_severity_def)
  then show ?thesis using h1 h2 h3 rk r by blast
qed

section \<open>The symptom table\<close>

text \<open>
  C9 as amended: every row appended to the symptom table has exactly the fields
  \<^verbatim>\<open>run\<close>, \<^verbatim>\<open>metric\<close>, \<^verbatim>\<open>z\<close>, \<^verbatim>\<open>severity\<close>, \<^verbatim>\<open>clusters\<close>, in this order; the cluster
  name stands under \<^verbatim>\<open>clusters\<close> and there is no field \<^verbatim>\<open>cluster\<close>.
\<close>

theorem symptom_row_fields:
  "map fst (symptom_row run r) = [''run'', ''metric'', ''z'', ''severity'', ''clusters'']
   \<and> map_of (symptom_row run r) ''cluster'' = None
   \<and> map_of (symptom_row run r) ''clusters'' = Some (CStr (cluster r))
   \<and> (diagnose_rows rows cluster_map thr_map ([], []) = Inr (symptom_rows, cause_rows) \<longrightarrow>
        (\<forall>x \<in> set symptom_rows.
           map fst x = [''run'', ''metric'', ''z'', ''severity'', ''clusters'']))"
proof -
  have f: "map fst (symptom_row run r) = [''run'', ''metric'', ''z'', ''severity'', ''clusters'']"
    for run r
    by (simp add: symptom_row_def)
  have "\<forall>x \<in> set symptom_rows. map fst x = [''run'', ''metric'', ''z'', ''severity'', ''clusters'']"
    if "diagnose_rows rows cluster_map thr_map ([], []) = Inr (symptom_rows, cause_rows)"
    using diagnose_rows_symptom_rows [OF that] f by auto
  then show ?thesis
    using f by (simp add: symptom_row_def)
qed

theorem symptom_row_fields_witness:
  "diagnose_rows [ex_row] ex_cm ex_tm ([], []) =
     Inr ([[(''run'', CNum (Some (Fin 7))), (''metric'', CStr ''A''), (''z'', CNum (Some (Fin 2.5))),
            (''severity'', CStr ''moderate''), (''clusters'', CStr ''C'')],
           [(''run'', CNum (Some (Fin 7))), (''metric'', CStr ''B''), (''z'', CNum (Some (Fin 3.5))),
            (''severity'', CStr ''severe''), (''clusters'', CStr ''C'')]],
          [[(''run'', CNum (Some (Fin 7))), (''C'', CInt 5), (''label_C'', CStr ''moderate'')]])
   \<and> list_all (\<lambda>x. map fst x = [''run'', ''metric'', ''z'', ''severity'', ''clusters''])
        [[(''run'', CNum (Some (Fin 7))), (''metric'', CStr ''A''), (''z'', CNum (Some (Fin 2.5))),
          (''severity'', CStr ''moderate''), (''clusters'', CStr ''C'')],
         [(''run'', CNum (Some (Fin 7))), (''metric'', CStr ''B''), (''z'', CNum (Some (Fin 3.5))),
          (''severity'', CStr ''severe''), (''clusters'', CStr ''C'')]]"
proof -
  let ?s = "[[(''run'', CNum (Some (Fin 7))), (''metric'', CStr ''A''), (''z'', CNum (Some (Fin 2.5))),
            (''severity'', CStr ''moderate''), (''clusters'', CStr ''C'')],
           [(''run'', CNum (Some (Fin 7))), (''metric'', CStr ''B''), (''z'', CNum (Some (Fin 3.5))),
            (''severity'', CStr ''severe''), (''clusters'', CStr ''C'')]]"
  let ?c = "[[(''run'', CNum (Some (Fin 7))), (''C'', CInt 5), (''label_C'', CStr ''moderate'')]]"
  have d: "diagnose_rows [ex_row] ex_cm ex_tm ([], []) = Inr (?s, ?c)"
    by (simp add: ex_defs engine_defs symptom_row_def)
  have "\<forall>x \<in> set ?s. map fst x = [''run'', ''metric'', ''z'', ''severity'', ''clusters'']"
    using symptom_row_fields [of _ _ "[ex_row]" ex_cm ex_tm ?s ?c] d by blast
  then have "list_all (\<lambda>x. map fst x = [''run'', ''metric'', ''z'', ''severity'', ''clusters'']) ?s"
    unfolding list_all_iff .
  then show ?thesis using d by blast
qed

text \<open>
  On the example of the specification the two rows written have the field \<^verbatim>\<open>clusters\<close>,
  which is not the field list \<^verbatim>\<open>run, metric, z, severity, cluster\<close>.
\<close>

theorem symptom_row_fields_counterexample:
  "map (map fst) (case diagnose_rows [ex_row] ex_cm ex_tm ([], []) of Inl e \<Rightarrow> [] | Inr res \<Rightarrow> fst res) =
     [[''run'', ''metric'', ''z'', ''severity'', ''clusters''],
      [''run'', ''metric'', ''z'', ''severity'', ''clusters'']]
   \<and> set [''run'', ''metric'', ''z'', ''severity'', ''clusters''] \<noteq>
       set [''run'', ''metric'', ''z'', ''severity'', ''cluster'']"
proof -
  have "diagnose_rows [ex_row] ex_cm ex_tm ([], []) =
     Inr ([[(''run'', CNum (Some (Fin 7))), (''metric'', CStr ''A''), (''z'', CNum (Some (Fin 2.5))),
            (''severity'', CStr ''moderate''), (''clusters'', CStr ''C'')],
           [(''run'', CNum (Some (Fin 7))), (''metric'', CStr ''B''), (''z'', CNum (Some (Fin 3.5))),
            (''severity'', CStr ''severe''), (''clusters'', CStr ''C'')]],
          [[(''run'', CNum (Some (Fin 7))), (''C'', CInt 5), (''label_C'', CStr ''moderate'')]])"
    by (simp add: ex_defs engine_defs symptom_row_def)
  moreover have "''clusters'' \<notin> set [''run'', ''metric'', ''z'', ''severity'', ''cluster'']"
    by simp
  then have "set [''run'', ''metric'', ''z'', ''severity'', ''clusters''] \<noteq>
       set [''run'', ''metric'', ''z'', ''severity'', ''cluster'']"
    by (metis list.set_intros(1) list.set_intros(2))
  ultimately show ?thesis by simp
qed

end
